theory Spec2Isabelle
  imports Main
begin

section \<open>Strings\<close>

text \<open>
  A JavaScript string is modelled as a \<^typ>\<open>string\<close>, a list of 8-bit code units. For
  \<open>req.url\<close>, the method and the request headers this is what Node delivers (the request
  line and the headers are decoded as Latin-1); for the command-line locator and for the
  metadata of an object it leaves out the code units above 255.
\<close>

definition startsWith :: "string \<Rightarrow> string \<Rightarrow> bool" where
  "startsWith s p = (take (length p) s = p)"

definition endsWith :: "string \<Rightarrow> string \<Rightarrow> bool" where
  "endsWith s p = (length p \<le> length s \<and> drop (length s - length p) s = p)"

fun includes_str :: "string \<Rightarrow> string \<Rightarrow> bool" where
  "includes_str [] p = (p = [])"
| "includes_str (c # cs) p = (take (length p) (c # cs) = p \<or> includes_str cs p)"

definition lowerChar :: "char \<Rightarrow> char" where
  \<comment> \<open>\<open>toLowerCase\<close> on one Latin-1 code unit: A..Z, and the accented capitals
      0xC0..0xDE other than the multiplication sign 0xD7, move up by 32.\<close>
  "lowerChar c =
     (let n = (of_char c :: nat)
      in if (65 \<le> n \<and> n \<le> 90) \<or> (192 \<le> n \<and> n \<le> 222 \<and> n \<noteq> 215)
         then char_of (n + 32) else c)"

definition toLowerCase :: "string \<Rightarrow> string" where
  "toLowerCase s = map lowerChar s"

definition upperChar :: "char \<Rightarrow> char" where
  \<comment> \<open>\<open>toUpperCase\<close> on one Latin-1 code unit: a..z, and the accented small letters
      0xE0..0xFE other than the division sign 0xF7, move down by 32. The three code
      units whose capital lies outside Latin-1 or is two letters (0xB5, 0xDF, 0xFF) are
      left as they are; none of them has an ASCII letter as its capital.\<close>
  "upperChar c =
     (let n = (of_char c :: nat)
      in if (97 \<le> n \<and> n \<le> 122) \<or> (224 \<le> n \<and> n \<le> 254 \<and> n \<noteq> 247)
         then char_of (n - 32) else c)"

definition toUpperCase :: "string \<Rightarrow> string" where
  "toUpperCase s = map upperChar s"

definition whitespace :: "char \<Rightarrow> bool" where
  \<comment> \<open>The Latin-1 code units the regular expression class \<open>\s\<close> matches.\<close>
  "whitespace c =
     (c = CHR 0x09 \<or> c = CHR 0x0A \<or> c = CHR 0x0B \<or> c = CHR 0x0C \<or> c = CHR 0x0D \<or>
      c = CHR 0x20 \<or> c = CHR 0xA0)"

definition truthy :: "string option \<Rightarrow> bool" where
  \<comment> \<open>JavaScript truthiness of a value of type \<open>string | undefined\<close>.\<close>
  "truthy v = (case v of None \<Rightarrow> False | Some s \<Rightarrow> s \<noteq> [])"

section \<open>gcs-handler.ts\<close>

subsection \<open>GcsConfig and parseGcsPath\<close>

record GcsConfig =
  bucketName :: string
  prefix :: string

definition lineTerminator :: "char \<Rightarrow> bool" where
  \<comment> \<open>The characters the regular expression dot does not match: LF and CR
      (U+2028 and U+2029 are outside the 8-bit code units).\<close>
  "lineTerminator c = (c = CHR 0x0A \<or> c = CHR 0x0D)"

definition parseGcsPath :: "string \<Rightarrow> GcsConfig option" where
  \<comment> \<open>\<open>gcsPath.match(/^gs:\/\/([^\/]+)\/?(.*)/)\<close>. The pattern is anchored at the start
      only. Group 1 is greedy over non-slash characters and never gives characters back,
      because the rest of the pattern matches any remainder; it must take at least one
      character. Then one slash is consumed when there is one, and group 2 takes
      everything up to the first line terminator. \<open>gcsMatch[2] || ''\<close> turns an empty
      group 2 into the empty string.\<close>
  "parseGcsPath gcsPath =
     (if \<not> startsWith gcsPath ''gs://'' then None
      else
        let rest = drop 5 gcsPath;
            g1 = takeWhile (\<lambda>c. c \<noteq> CHR ''/'') rest;
            after1 = dropWhile (\<lambda>c. c \<noteq> CHR ''/'') rest;
            after2 = (case after1 of [] \<Rightarrow> [] | c # cs \<Rightarrow> if c = CHR ''/'' then cs else c # cs);
            g2 = takeWhile (\<lambda>c. \<not> lineTerminator c) after2
        in if g1 = [] then None
           else Some \<lparr>bucketName = g1, prefix = (if g2 \<noteq> [] then g2 else [])\<rparr>)"

subsection \<open>Requests, responses and the storage backend\<close>

record request =
  url :: string
  httpMethod :: string
  reqHeaders :: "string \<rightharpoonup> string"

datatype body =
  Unsent
  | Sent string
  | Ended
  | Piped string

record response =
  statusCode :: nat
  headers :: "string \<rightharpoonup> string"
  body :: body

definition freshResponse :: response where
  "freshResponse = \<lparr>statusCode = 200, headers = Map.empty, body = Unsent\<rparr>"

definition status :: "nat \<Rightarrow> response \<Rightarrow> response" where
  "status n r = r\<lparr>statusCode := n\<rparr>"

text \<open>
  The \<open>headers\<close> of a response are the ones set through \<open>res.set\<close> and
  \<open>res.setHeader\<close> by the repository's code and by the \<open>cors\<close> middleware it
  configures, under the field names as these callers spell them. The \<open>body\<close> is what
  the code hands to \<open>res.send\<close>, \<open>res.end\<close> or \<open>stream.pipe\<close>.
\<close>

definition setHeader :: "string \<Rightarrow> string \<Rightarrow> response \<Rightarrow> response" where
  \<comment> \<open>Node's \<open>res.setHeader(name, value)\<close>.\<close>
  "setHeader f v r = r\<lparr>headers := (headers r)(f \<mapsto> v)\<rparr>"

fun hasCharset :: "string \<Rightarrow> bool" where
  \<comment> \<open>Express's test \<open>/;\s*charset\s*=/\<close> on a Content-Type value.\<close>
  "hasCharset [] = False"
| "hasCharset (c # cs) =
     ((c = CHR '';'' \<and>
       (let r = dropWhile whitespace cs
        in startsWith r ''charset'' \<and> startsWith (dropWhile whitespace (drop 7 r)) ''=''))
      \<or> hasCharset cs)"

definition defaultCharset :: "string \<Rightarrow> string option" where
  \<comment> \<open>\<open>mime.charsets.lookup\<close> of the \<open>mime\<close> package Express 4 uses: the test
      \<open>/^text\/|^application\/(javascript|json)/\<close> on the media type.\<close>
  "defaultCharset t =
     (if startsWith t ''text/'' \<or> startsWith t ''application/javascript'' \<or>
         startsWith t ''application/json''
      then Some ''UTF-8'' else None)"

definition withDefaultCharset :: "string \<Rightarrow> string" where
  \<comment> \<open>What \<open>res.set\<close> of Express 4 stores for a Content-Type value: a value without
      charset parameter gets the default charset of its media type
      (\<open>value.split(';')[0]\<close>), lower-cased, when the media type has one.\<close>
  "withDefaultCharset v =
     (if hasCharset v then v
      else case defaultCharset (takeWhile (\<lambda>c. c \<noteq> CHR '';'') v) of
             None \<Rightarrow> v
           | Some cs \<Rightarrow> v @ ''; charset='' @ toLowerCase cs)"

definition set_header :: "string \<Rightarrow> string \<Rightarrow> response \<Rightarrow> response" where
  \<comment> \<open>Express's \<open>res.set(field, value)\<close> with a string value: \<open>setHeader\<close>, after the
      charset treatment when the field is Content-Type in any letter case. Express is a
      library the repository calls; this follows its version 4.\<close>
  "set_header f v r =
     setHeader f (if toLowerCase f = ''content-type'' then withDefaultCharset v else v) r"

definition send :: "string \<Rightarrow> response \<Rightarrow> response" where
  \<comment> \<open>\<open>res.send(body)\<close> with a string: the body handed over. Express derives further
      headers from the body and the headers present (Content-Type, Content-Length and an
      entity tag of its own); they are not recorded, and no statement below is about the
      headers of a response that went through \<open>send\<close>.\<close>
  "send s r = r\<lparr>body := Sent s\<rparr>"

definition end_response :: "response \<Rightarrow> response" where
  "end_response r = r\<lparr>body := Ended\<rparr>"

definition pipe :: "string \<Rightarrow> response \<Rightarrow> response" where
  "pipe bytes r = r\<lparr>body := Piped bytes\<rparr>"

datatype error = Error string

record metadata =
  etag :: "string option"
  contentType :: "string option"
  contentEncoding :: "string option"

text \<open>
  The storage client: each operation is addressed by bucket name and object name and either
  throws or returns. \<open>createReadStream\<close> also takes the \<open>decompress\<close> option and returns
  the bytes the stream will carry.
\<close>

record backend =
  file_exists :: "string \<Rightarrow> string \<Rightarrow> error + bool"
  getMetadata :: "string \<Rightarrow> string \<Rightarrow> error + metadata"
  createReadStream :: "string \<Rightarrow> string \<Rightarrow> bool \<Rightarrow> error + string"

datatype backendCall =
  Exists string string
  | GetMetadata string string
  | CreateReadStream string string bool

record world =
  res :: response
  calls :: "backendCall list"
  console :: "error list"

subsection \<open>handleRequest\<close>

definition filePath :: "GcsConfig \<Rightarrow> request \<Rightarrow> string" where
  \<comment> \<open>Lines 39 to 42: the object name looked up in the bucket.\<close>
  "filePath cfg req =
     (let fp = (if url req = ''/'' then ''index.html'' else drop 1 (url req))
      in if prefix cfg \<noteq> []
         then prefix cfg @ (if endsWith (prefix cfg) ''/'' then [] else ''/'') @ fp
         else fp)"

definition notFoundPage :: "string \<Rightarrow> string" where
  \<comment> \<open>The template literal of lines 48 to 51, line breaks and indentation included.\<close>
  "notFoundPage fp =
     [CHR 0x0A] @ ''          <h1>File Not Found</h1>'' @
     [CHR 0x0A] @ ''          <p>File not found in GCS: '' @ fp @ ''</p>'' @
     [CHR 0x0A] @ ''        ''"

definition catchError :: "error \<Rightarrow> world \<Rightarrow> world" where
  \<comment> \<open>The \<open>catch\<close> block, lines 82 to 85, entered with the response as the \<open>try\<close> block
      left it.\<close>
  "catchError e w =
     w\<lparr>console := console w @ [e],
       res := send ''Internal Server Error'' (status 500 (res w))\<rparr>"

definition setIfTruthy :: "string \<Rightarrow> string option \<Rightarrow> response \<Rightarrow> response" where
  \<comment> \<open>\<open>if (v) { res.set(field, v); }\<close>\<close>
  "setIfTruthy f v r =
     (case v of None \<Rightarrow> r | Some s \<Rightarrow> if s \<noteq> [] then set_header f s r else r)"

definition setMetadataHeaders :: "metadata \<Rightarrow> response \<Rightarrow> response" where
  \<comment> \<open>Lines 66 to 78.\<close>
  "setMetadataHeaders md r =
     set_header ''Cache-Control'' ''no-cache''
       (setIfTruthy ''Content-Encoding'' (contentEncoding md)
         (setIfTruthy ''Content-Type'' (contentType md)
           (setIfTruthy ''ETag'' (etag md) r)))"

definition notModified :: "request \<Rightarrow> metadata \<Rightarrow> bool" where
  \<comment> \<open>Lines 59 and 60: \<open>clientETag && metadata.etag && clientETag === metadata.etag\<close>.\<close>
  "notModified req md =
     (let clientETag = reqHeaders req ''if-none-match''
      in truthy clientETag \<and> truthy (etag md) \<and> clientETag = etag md)"

text \<open>
  \<open>createReadStream\<close> either throws at the call or returns the stream. A stream that
  fails later reports it through an \<open>error\<close> event, outside the \<open>try\<close> block; that
  case is not part of the model.
\<close>

definition deliver :: "backend \<Rightarrow> string \<Rightarrow> string \<Rightarrow> metadata \<Rightarrow> world \<Rightarrow> world" where
  \<comment> \<open>Lines 65 to 81, for the object \<open>fp\<close> of bucket \<open>b\<close>: the headers, then the stream
      opened with \<open>decompress: false\<close> and piped into the response.\<close>
  "deliver be b fp md w =
     (let w3 = w\<lparr>res := setMetadataHeaders md (res w),
                  calls := calls w @ [CreateReadStream b fp False]\<rparr>
      in case createReadStream be b fp False of
           Inl e \<Rightarrow> catchError e w3
         | Inr bytes \<Rightarrow> w3\<lparr>res := pipe bytes (res w3)\<rparr>)"

definition handleRequest :: "backend \<Rightarrow> GcsConfig \<Rightarrow> request \<Rightarrow> world \<Rightarrow> world" where
  "handleRequest be cfg req w =
     (let fp = filePath cfg req;
          b = bucketName cfg;
          w1 = w\<lparr>calls := calls w @ [Exists b fp]\<rparr>
      in case file_exists be b fp of
           Inl e \<Rightarrow> catchError e w1
         | Inr ex \<Rightarrow>
            (if \<not> ex then w1\<lparr>res := send (notFoundPage fp) (status 404 (res w1))\<rparr>
             else
               let w2 = w1\<lparr>calls := calls w1 @ [GetMetadata b fp]\<rparr>
               in (case getMetadata be b fp of
                     Inl e \<Rightarrow> catchError e w2
                   | Inr md \<Rightarrow>
                      (if notModified req md
                       then w2\<lparr>res := end_response (status 304 (res w2))\<rparr>
                       else deliver be b fp md w2))))"

section \<open>server.ts\<close>

subsection \<open>path.extname\<close>

definition basename_part :: "string \<Rightarrow> string" where
  \<comment> \<open>The last component of a POSIX path, trailing slashes ignored.\<close>
  "basename_part p =
     rev (takeWhile (\<lambda>c. c \<noteq> CHR ''/'') (dropWhile (\<lambda>c. c = CHR ''/'') (rev p)))"

definition extname :: "string \<Rightarrow> string" where
  \<comment> \<open>Modelled from the spec: \<open>path.extname\<close> is Node's library function (POSIX flavour),
      which the repository calls but does not contain. The extension runs from the last
      dot of the last path component to the end of that component; it is empty when the
      component has no dot, when its only dot is its first character, and when the
      component is \<open>..\<close>.\<close>
  "extname p =
     (let base = basename_part p;
          ext = CHR ''.'' # rev (takeWhile (\<lambda>c. c \<noteq> CHR ''.'') (rev base))
      in if CHR ''.'' \<notin> set base then []
         else if length ext = length base then []
         else if base = ''..'' then []
         else ext)"

subsection \<open>The header middleware\<close>

definition getContentTypeForCompressedFile :: "string \<Rightarrow> string" where
  "getContentTypeForCompressedFile u =
     (if includes_str u ''.wasm.'' then ''application/wasm''
      else if includes_str u ''.js.'' then ''application/javascript''
      else if includes_str u ''.data.'' then ''application/octet-stream''
      else ''application/octet-stream'')"

definition headerMiddleware :: "bool \<Rightarrow> request \<Rightarrow> response \<Rightarrow> response" where
  \<comment> \<open>Lines 113 to 147; the first argument is \<open>isGcsPath\<close>. The result is the response
      handed to \<open>next()\<close>.\<close>
  "headerMiddleware isGcsPath req r =
     (if isGcsPath then r
      else
        let ext = toLowerCase (extname (url req))
        in if ext = ''.wasm'' then set_header ''Content-Type'' ''application/wasm'' r
           else if ext = ''.js'' then set_header ''Content-Type'' ''application/javascript'' r
           else if ext = ''.gz'' then
             set_header ''Content-Type'' (getContentTypeForCompressedFile (url req))
               (set_header ''Content-Encoding'' ''gzip'' r)
           else if ext = ''.br'' then
             set_header ''Content-Type'' (getContentTypeForCompressedFile (url req))
               (set_header ''Content-Encoding'' ''br'' r)
           else if ext = ''.data'' then set_header ''Content-Type'' ''application/octet-stream'' r
           else if ext = ''.unityweb'' then
             set_header ''Content-Type'' ''application/octet-stream'' r
           else r)"

subsection \<open>The cors middleware\<close>

definition cors :: "request \<Rightarrow> response \<Rightarrow> response + response" where
  \<comment> \<open>Lines 90 to 94: the \<open>cors\<close> package with the options of the source (origin
      \<open>*\<close>, five methods, two allowed headers). The package is a library; this follows
      its version 2.8. A request whose method is OPTIONS in any letter case is a
      preflight: it gets the three headers, status 204 and Content-Length 0, and the
      response is ended without calling \<open>next()\<close> (\<open>Inl\<close>). Every other request gets
      the origin header and goes on (\<open>Inr\<close>).\<close>
  "cors req r =
     (if toUpperCase (httpMethod req) = ''OPTIONS''
      then Inl (end_response
             (setHeader ''Content-Length'' ''0''
               (status 204
                 (setHeader ''Access-Control-Allow-Headers'' ''Content-Type,Authorization''
                   (setHeader ''Access-Control-Allow-Methods'' ''GET,POST,PUT,DELETE,OPTIONS''
                     (setHeader ''Access-Control-Allow-Origin'' ''*'' r))))))
      else Inr (setHeader ''Access-Control-Allow-Origin'' ''*'' r))"

subsection \<open>The GCS proxy\<close>

text \<open>
  The logging middleware, which runs between the header middleware and the handler, writes
  one line to the console when the response has finished and does not touch the response.
\<close>

definition headResponse :: "request \<Rightarrow> world \<Rightarrow> world" where
  \<comment> \<open>A HEAD request is answered without body: Express's \<open>send\<close> ends the response
      without the body, and Node drops what is written or piped to it.\<close>
  "headResponse req w =
     (if httpMethod req = ''HEAD''
      then w\<lparr>res := (res w)\<lparr>body := (case body (res w) of Unsent \<Rightarrow> Unsent | _ \<Rightarrow> Ended)\<rparr>\<rparr>
      else w)"

definition gcsProxy :: "backend \<Rightarrow> GcsConfig \<Rightarrow> request \<Rightarrow> world" where
  \<comment> \<open>A request in remote mode, through the middleware in the order \<open>server.ts\<close> mounts
      them: \<open>cors\<close>, the header middleware with \<open>isGcsPath\<close> true, then the handler
      mounted at \<open>/\<close> with \<open>app.use\<close>, which receives every method and every path
      that \<open>cors\<close> lets through.\<close>
  "gcsProxy be cfg req =
     (case cors req freshResponse of
        Inl r \<Rightarrow> \<lparr>res = r, calls = [], console = []\<rparr>
      | Inr r \<Rightarrow>
          headResponse req
            (handleRequest be cfg req
               \<lparr>res = headerMiddleware True req r, calls = [], console = []\<rparr>))"

definition proxyEntry :: world where
  \<comment> \<open>The state in which the handler is entered in remote mode: the header middleware
      skips, so the response has the one header \<open>cors\<close> sets; no backend call yet.\<close>
  "proxyEntry =
     \<lparr>res = setHeader ''Access-Control-Allow-Origin'' ''*'' freshResponse,
      calls = [], console = []\<rparr>"

section \<open>Sample inputs\<close>

definition fakeBackend :: "error + bool \<Rightarrow> error + metadata \<Rightarrow> error + string \<Rightarrow> backend" where
  \<comment> \<open>A storage client that answers every object alike.\<close>
  "fakeBackend ex md st =
     \<lparr>file_exists = (\<lambda>b k. ex), getMetadata = (\<lambda>b k. md), createReadStream = (\<lambda>b k d. st)\<rparr>"

definition etagAbc :: string where
  \<comment> \<open>The entity tag \<open>"abc"\<close>, quotation marks included.\<close>
  "etagAbc = CHR 0x22 # ''abc'' @ [CHR 0x22]"

definition etagXyz :: string where
  "etagXyz = CHR 0x22 # ''xyz'' @ [CHR 0x22]"

definition pageMetadata :: metadata where
  \<comment> \<open>An HTML page stored without content encoding.\<close>
  "pageMetadata = \<lparr>etag = Some etagXyz, contentType = Some ''text/html'', contentEncoding = None\<rparr>"

definition sampleMetadata :: metadata where
  "sampleMetadata =
     \<lparr>etag = Some etagAbc, contentType = Some ''application/wasm'',
      contentEncoding = Some ''gzip''\<rparr>"

definition sampleConfig :: GcsConfig where
  "sampleConfig = \<lparr>bucketName = ''builds'', prefix = ''game''\<rparr>"

definition sampleRequest :: "string \<Rightarrow> string option \<Rightarrow> request" where
  \<comment> \<open>A GET for the URL, with the If-None-Match header when one is given.\<close>
  "sampleRequest u inm =
     \<lparr>url = u, httpMethod = ''GET'', reqHeaders = (\<lambda>h. if h = ''if-none-match'' then inm else None)\<rparr>"

definition emptyWorld :: world where
  "emptyWorld = \<lparr>res = freshResponse, calls = [], console = []\<rparr>"


section \<open>Facts about the handler\<close>


lemma notModified_iff:
  "notModified req md \<longleftrightarrow>
     (\<exists>v. reqHeaders req ''if-none-match'' = Some v \<and> v \<noteq> [] \<and> etag md = Some v)"
  by (auto simp: notModified_def truthy_def Let_def split: option.splits)

lemma handle_absent:
  "file_exists be (bucketName cfg) (filePath cfg req) = Inr False \<Longrightarrow>
   handleRequest be cfg req w =
     w\<lparr>calls := calls w @ [Exists (bucketName cfg) (filePath cfg req)],
       res := (res w)\<lparr>statusCode := 404, body := Sent (notFoundPage (filePath cfg req))\<rparr>\<rparr>"
  by (simp add: handleRequest_def Let_def status_def send_def)

lemma handle_exists_throws:
  "file_exists be (bucketName cfg) (filePath cfg req) = Inl e \<Longrightarrow>
   handleRequest be cfg req w =
     w\<lparr>calls := calls w @ [Exists (bucketName cfg) (filePath cfg req)],
       console := console w @ [e],
       res := (res w)\<lparr>statusCode := 500, body := Sent ''Internal Server Error''\<rparr>\<rparr>"
  by (simp add: handleRequest_def Let_def status_def send_def catchError_def)

lemma handle_metadata_throws:
  "file_exists be (bucketName cfg) (filePath cfg req) = Inr True \<Longrightarrow>
   getMetadata be (bucketName cfg) (filePath cfg req) = Inl e \<Longrightarrow>
   handleRequest be cfg req w =
     w\<lparr>calls := calls w @ [Exists (bucketName cfg) (filePath cfg req),
                            GetMetadata (bucketName cfg) (filePath cfg req)],
       console := console w @ [e],
       res := (res w)\<lparr>statusCode := 500, body := Sent ''Internal Server Error''\<rparr>\<rparr>"
  by (simp add: handleRequest_def Let_def status_def send_def catchError_def)

lemma handle_not_modified:
  "file_exists be (bucketName cfg) (filePath cfg req) = Inr True \<Longrightarrow>
   getMetadata be (bucketName cfg) (filePath cfg req) = Inr md \<Longrightarrow>
   notModified req md \<Longrightarrow>
   handleRequest be cfg req w =
     w\<lparr>calls := calls w @ [Exists (bucketName cfg) (filePath cfg req),
                            GetMetadata (bucketName cfg) (filePath cfg req)],
       res := (res w)\<lparr>statusCode := 304, body := Ended\<rparr>\<rparr>"
  by (simp add: handleRequest_def Let_def status_def end_response_def)

lemma handle_deliver:
  "file_exists be (bucketName cfg) (filePath cfg req) = Inr True \<Longrightarrow>
   getMetadata be (bucketName cfg) (filePath cfg req) = Inr md \<Longrightarrow>
   \<not> notModified req md \<Longrightarrow>
   handleRequest be cfg req w =
     deliver be (bucketName cfg) (filePath cfg req) md
       (w\<lparr>calls := calls w @ [Exists (bucketName cfg) (filePath cfg req),
                              GetMetadata (bucketName cfg) (filePath cfg req)]\<rparr>)"
  by (simp add: handleRequest_def Let_def)

lemma lower_fields:
  "toLowerCase ''ETag'' \<noteq> ''content-type''"
  "toLowerCase ''Content-Encoding'' \<noteq> ''content-type''"
  "toLowerCase ''Cache-Control'' \<noteq> ''content-type''"
  "toLowerCase ''Content-Type'' = ''content-type''"
  "toLowerCase ''UTF-8'' = ''utf-8''"
  by code_simp+

lemma set_header_other:
  "set_header ''ETag'' v r = setHeader ''ETag'' v r"
  "set_header ''Content-Encoding'' v r = setHeader ''Content-Encoding'' v r"
  "set_header ''Cache-Control'' v r = setHeader ''Cache-Control'' v r"
  by (simp_all add: set_header_def lower_fields)

lemma set_header_content_type:
  "set_header ''Content-Type'' v r = setHeader ''Content-Type'' (withDefaultCharset v) r"
  by (simp add: set_header_def lower_fields)

lemma withDefaultCharset_cases:
  "withDefaultCharset v = v \<or> withDefaultCharset v = v @ ''; charset=utf-8''"
  by (simp add: withDefaultCharset_def defaultCharset_def lower_fields)

lemma setMetadataHeaders_fields:
  "statusCode (setMetadataHeaders md r) = statusCode r"
  "body (setMetadataHeaders md r) = body r"
  by (simp_all add: setMetadataHeaders_def setIfTruthy_def set_header_other
        set_header_content_type setHeader_def split: option.splits)

lemma setMetadataHeaders_headers:
  "headers (setMetadataHeaders md r) ''ETag'' =
     (if truthy (etag md) then etag md else headers r ''ETag'')"
  "headers (setMetadataHeaders md r) ''Content-Type'' =
     (if truthy (contentType md) then map_option withDefaultCharset (contentType md)
      else headers r ''Content-Type'')"
  "headers (setMetadataHeaders md r) ''Content-Encoding'' =
     (if truthy (contentEncoding md) then contentEncoding md else headers r ''Content-Encoding'')"
  "headers (setMetadataHeaders md r) ''Cache-Control'' = Some ''no-cache''"
  by (simp_all add: setMetadataHeaders_def setIfTruthy_def set_header_other
        set_header_content_type setHeader_def truthy_def split: option.splits)

lemma setMetadataHeaders_untouched:
  "f \<notin> {''ETag'', ''Content-Type'', ''Content-Encoding'', ''Cache-Control''} \<Longrightarrow>
   headers (setMetadataHeaders md r) f = headers r f"
  by (simp add: setMetadataHeaders_def setIfTruthy_def set_header_other
        set_header_content_type setHeader_def split: option.splits)

lemma deliver_calls:
  "calls (deliver be b fp md w) = calls w @ [CreateReadStream b fp False]"
  by (simp add: deliver_def Let_def catchError_def split: sum.splits)

lemma deliver_headers:
  "headers (res (deliver be b fp md w)) = headers (setMetadataHeaders md (res w))"
  by (simp add: deliver_def Let_def catchError_def status_def send_def pipe_def split: sum.splits)

lemma deliver_streams:
  "createReadStream be b fp False = Inr bytes \<Longrightarrow>
   res (deliver be b fp md w) = (setMetadataHeaders md (res w))\<lparr>body := Piped bytes\<rparr>"
  by (simp add: deliver_def Let_def pipe_def)

lemma deliver_throws:
  "createReadStream be b fp False = Inl e \<Longrightarrow>
   res (deliver be b fp md w) =
     (setMetadataHeaders md (res w))\<lparr>statusCode := 500, body := Sent ''Internal Server Error''\<rparr>"
  by (simp add: deliver_def Let_def catchError_def status_def send_def)

lemma deliver_status:
  "statusCode (res (deliver be b fp md w)) = statusCode (res w) \<or>
   statusCode (res (deliver be b fp md w)) = 500"
  by (cases "createReadStream be b fp False")
     (simp_all add: deliver_throws deliver_streams setMetadataHeaders_fields)

section \<open>Claims about the handler\<close>

text \<open>
  C1. When the object exists and its metadata was fetched: a client validator that is
  present, non-empty and equal to the object's ETag gives status 304 with the response ended
  without a body and without any header set by the handler, after the existence check and
  the metadata fetch only; in every other case the handler goes on to the delivery; and an
  object without ETag always goes on to the delivery.
\<close>

theorem conditional_request:
  assumes "file_exists be (bucketName cfg) (filePath cfg req) = Inr True"
      and "getMetadata be (bucketName cfg) (filePath cfg req) = Inr md"
  shows "((\<exists>v. reqHeaders req ''if-none-match'' = Some v \<and> v \<noteq> [] \<and> etag md = Some v) \<longrightarrow>
            res (handleRequest be cfg req w) = (res w)\<lparr>statusCode := 304, body := Ended\<rparr> \<and>
            calls (handleRequest be cfg req w) =
              calls w @ [Exists (bucketName cfg) (filePath cfg req),
                         GetMetadata (bucketName cfg) (filePath cfg req)]) \<and>
         (\<not> (\<exists>v. reqHeaders req ''if-none-match'' = Some v \<and> v \<noteq> [] \<and> etag md = Some v) \<longrightarrow>
            handleRequest be cfg req w =
              deliver be (bucketName cfg) (filePath cfg req) md
                (w\<lparr>calls := calls w @ [Exists (bucketName cfg) (filePath cfg req),
                                       GetMetadata (bucketName cfg) (filePath cfg req)]\<rparr>)) \<and>
         (etag md = None \<longrightarrow>
            handleRequest be cfg req w =
              deliver be (bucketName cfg) (filePath cfg req) md
                (w\<lparr>calls := calls w @ [Exists (bucketName cfg) (filePath cfg req),
                                       GetMetadata (bucketName cfg) (filePath cfg req)]\<rparr>))"
proof (intro conjI impI)
  assume "\<exists>v. reqHeaders req ''if-none-match'' = Some v \<and> v \<noteq> [] \<and> etag md = Some v"
  then have nm: "notModified req md" by (simp add: notModified_iff)
  show "res (handleRequest be cfg req w) = (res w)\<lparr>statusCode := 304, body := Ended\<rparr>"
    by (simp add: handle_not_modified [OF assms nm])
  show "calls (handleRequest be cfg req w) =
          calls w @ [Exists (bucketName cfg) (filePath cfg req),
                     GetMetadata (bucketName cfg) (filePath cfg req)]"
    by (simp add: handle_not_modified [OF assms nm])
next
  assume "\<not> (\<exists>v. reqHeaders req ''if-none-match'' = Some v \<and> v \<noteq> [] \<and> etag md = Some v)"
  then have "\<not> notModified req md" by (simp add: notModified_iff)
  then show "handleRequest be cfg req w =
          deliver be (bucketName cfg) (filePath cfg req) md
            (w\<lparr>calls := calls w @ [Exists (bucketName cfg) (filePath cfg req),
                                   GetMetadata (bucketName cfg) (filePath cfg req)]\<rparr>)"
    by (rule handle_deliver [OF assms])
next
  assume "etag md = None"
  then have "\<not> notModified req md" by (simp add: notModified_iff)
  then show "handleRequest be cfg req w =
          deliver be (bucketName cfg) (filePath cfg req) md
            (w\<lparr>calls := calls w @ [Exists (bucketName cfg) (filePath cfg req),
                                   GetMetadata (bucketName cfg) (filePath cfg req)]\<rparr>)"
    by (rule handle_deliver [OF assms])
qed

text \<open>
  C1, at concrete requests for \<open>/\<close> on an object with ETag \<open>"abc"\<close>: the validator
  \<open>"abc"\<close> gives 304 with no header and no body; the validators \<open>"xyz"\<close> and
  \<open>W/"abc"\<close> give the delivery, and so does any validator when the object has no ETag.
\<close>

theorem conditional_request_witness:
  "res (handleRequest (fakeBackend (Inr True) (Inr sampleMetadata) (Inr ''bytes''))
          sampleConfig (sampleRequest ''/'' (Some etagAbc)) emptyWorld) =
     \<lparr>statusCode = 304, headers = Map.empty, body = Ended\<rparr> \<and>
   body (res (handleRequest (fakeBackend (Inr True) (Inr sampleMetadata) (Inr ''bytes''))
          sampleConfig (sampleRequest ''/'' (Some etagXyz)) emptyWorld)) = Piped ''bytes'' \<and>
   body (res (handleRequest (fakeBackend (Inr True) (Inr sampleMetadata) (Inr ''bytes''))
          sampleConfig (sampleRequest ''/'' (Some (''W/'' @ etagAbc))) emptyWorld)) =
     Piped ''bytes'' \<and>
   body (res (handleRequest
          (fakeBackend (Inr True) (Inr (sampleMetadata\<lparr>etag := None\<rparr>)) (Inr ''bytes''))
          sampleConfig (sampleRequest ''/'' (Some etagAbc)) emptyWorld)) = Piped ''bytes''"
proof -
  let ?be = "fakeBackend (Inr True) (Inr sampleMetadata) (Inr ''bytes'')"
  let ?be' = "fakeBackend (Inr True) (Inr (sampleMetadata\<lparr>etag := None\<rparr>)) (Inr ''bytes'')"
  let ?abc = "sampleRequest ''/'' (Some etagAbc)"
  let ?xyz = "sampleRequest ''/'' (Some etagXyz)"
  let ?weak = "sampleRequest ''/'' (Some (''W/'' @ etagAbc))"
  have ex: "file_exists ?be (bucketName sampleConfig) (filePath sampleConfig r) = Inr True"
    and md: "getMetadata ?be (bucketName sampleConfig) (filePath sampleConfig r) =
             Inr sampleMetadata" for r
    by (simp_all add: fakeBackend_def)
  have ex': "file_exists ?be' (bucketName sampleConfig) (filePath sampleConfig r) = Inr True"
    and md': "getMetadata ?be' (bucketName sampleConfig) (filePath sampleConfig r) =
             Inr (sampleMetadata\<lparr>etag := None\<rparr>)" for r
    by (simp_all add: fakeBackend_def)
  have st: "createReadStream ?be b k False = Inr ''bytes''"
       "createReadStream ?be' b k False = Inr ''bytes''" for b k
    by (simp_all add: fakeBackend_def)
  have m: "\<exists>v. reqHeaders ?abc ''if-none-match'' = Some v \<and> v \<noteq> [] \<and>
             etag sampleMetadata = Some v"
    by (simp add: sampleRequest_def sampleMetadata_def etagAbc_def)
  have n: "\<not> (\<exists>v. reqHeaders ?xyz ''if-none-match'' = Some v \<and> v \<noteq> [] \<and>
             etag sampleMetadata = Some v)"
    by (simp add: sampleRequest_def sampleMetadata_def etagAbc_def etagXyz_def)
  have k: "\<not> (\<exists>v. reqHeaders ?weak ''if-none-match'' = Some v \<and> v \<noteq> [] \<and>
             etag sampleMetadata = Some v)"
    by (simp add: sampleRequest_def sampleMetadata_def etagAbc_def)
  have "res (handleRequest ?be sampleConfig ?abc emptyWorld) =
          \<lparr>statusCode = 304, headers = Map.empty, body = Ended\<rparr>"
    using conditional_request [OF ex md, of ?abc emptyWorld] m
    by (simp add: emptyWorld_def freshResponse_def)
  moreover have "body (res (handleRequest ?be sampleConfig ?xyz emptyWorld)) = Piped ''bytes''"
    using conditional_request [OF ex md, of ?xyz emptyWorld] n
    by (simp add: deliver_streams [OF st(1)])
  moreover have "body (res (handleRequest ?be sampleConfig ?weak emptyWorld)) = Piped ''bytes''"
    using conditional_request [OF ex md, of ?weak emptyWorld] k
    by (simp add: deliver_streams [OF st(1)])
  moreover have "body (res (handleRequest ?be' sampleConfig ?abc emptyWorld)) = Piped ''bytes''"
    using conditional_request [OF ex' md', of ?abc emptyWorld]
    by (simp add: deliver_streams [OF st(2)])
  ultimately show ?thesis by simp
qed




section \<open>Facts about the proxy\<close>

lemma upper_methods:
  "toUpperCase ''GET'' \<noteq> ''OPTIONS''" "toUpperCase ''HEAD'' \<noteq> ''OPTIONS''"
  "toUpperCase ''POST'' \<noteq> ''OPTIONS''" "toUpperCase ''DELETE'' \<noteq> ''OPTIONS''"
  "toUpperCase ''OPTIONS'' = ''OPTIONS''"
  by code_simp+

lemma filePath_method: "filePath cfg (req\<lparr>httpMethod := m\<rparr>) = filePath cfg req"
  by (simp add: filePath_def)

lemma notModified_method: "notModified (req\<lparr>httpMethod := m\<rparr>) md = notModified req md"
  by (simp add: notModified_def)

lemma handleRequest_method:
  "handleRequest be cfg (req\<lparr>httpMethod := m\<rparr>) w = handleRequest be cfg req w"
  by (simp add: handleRequest_def filePath_method notModified_method Let_def
        split: sum.splits)

lemma gcsProxy_next:
  "toUpperCase (httpMethod req) \<noteq> ''OPTIONS'' \<Longrightarrow>
   gcsProxy be cfg req = headResponse req (handleRequest be cfg req proxyEntry)"
  by (simp add: gcsProxy_def cors_def headerMiddleware_def proxyEntry_def)

lemma gcsProxy_preflight:
  "toUpperCase (httpMethod req) = ''OPTIONS'' \<Longrightarrow>
   gcsProxy be cfg req =
     \<lparr>res = \<lparr>statusCode = 204,
              headers = [''Access-Control-Allow-Origin'' \<mapsto> ''*'',
                         ''Access-Control-Allow-Methods'' \<mapsto> ''GET,POST,PUT,DELETE,OPTIONS'',
                         ''Access-Control-Allow-Headers'' \<mapsto> ''Content-Type,Authorization'',
                         ''Content-Length'' \<mapsto> ''0''],
              body = Ended\<rparr>,
      calls = [], console = []\<rparr>"
  by (simp add: gcsProxy_def cors_def setHeader_def status_def end_response_def
        freshResponse_def)

lemma headResponse_fields:
  "statusCode (res (headResponse req w)) = statusCode (res w)"
  "headers (res (headResponse req w)) = headers (res w)"
  "calls (headResponse req w) = calls w"
  "console (headResponse req w) = console w"
  by (simp_all add: headResponse_def)

lemma headResponse_body:
  "body (res (headResponse req w)) =
     (if httpMethod req = ''HEAD''
      then (case body (res w) of Unsent \<Rightarrow> Unsent | _ \<Rightarrow> Ended)
      else body (res w))"
  by (simp add: headResponse_def)

lemma headResponse_other: "httpMethod req \<noteq> ''HEAD'' \<Longrightarrow> headResponse req w = w"
  by (simp add: headResponse_def)

lemma proxyEntry_fields:
  "statusCode (res proxyEntry) = 200"
  "headers (res proxyEntry) = [''Access-Control-Allow-Origin'' \<mapsto> ''*'']"
  "body (res proxyEntry) = Unsent"
  "calls proxyEntry = []"
  by (simp_all add: proxyEntry_def setHeader_def freshResponse_def)

section \<open>Claims about the proxy\<close>

text \<open>
  C4. On every delivery in remote mode (the request is not a preflight, the object exists,
  its metadata was fetched, the validator did not match, the stream was opened) the
  response has the ETag, Content-Type and Content-Encoding headers exactly when the metadata
  field is present and not the empty string. ETag and Content-Encoding carry the value of
  the metadata unchanged; Content-Type carries it as \<open>res.set\<close> stores it, unchanged or
  with \<open>; charset=utf-8\<close> appended. Cache-Control is \<open>no-cache\<close>. The stream is opened
  with \<open>decompress: false\<close>, the status is 200, and the bytes of the stream are what is
  piped to the client (nothing for a HEAD request).
\<close>

theorem delivery_headers:
  assumes "toUpperCase (httpMethod req) \<noteq> ''OPTIONS''"
      and "file_exists be (bucketName cfg) (filePath cfg req) = Inr True"
      and "getMetadata be (bucketName cfg) (filePath cfg req) = Inr md"
      and "\<not> notModified req md"
      and "createReadStream be (bucketName cfg) (filePath cfg req) False = Inr bytes"
  shows "headers (res (gcsProxy be cfg req)) ''ETag'' =
           (if truthy (etag md) then etag md else None) \<and>
         headers (res (gcsProxy be cfg req)) ''Content-Type'' =
           (if truthy (contentType md) then map_option withDefaultCharset (contentType md)
            else None) \<and>
         (\<forall>v. contentType md = Some v \<longrightarrow>
            withDefaultCharset v = v \<or> withDefaultCharset v = v @ ''; charset=utf-8'') \<and>
         headers (res (gcsProxy be cfg req)) ''Content-Encoding'' =
           (if truthy (contentEncoding md) then contentEncoding md else None) \<and>
         headers (res (gcsProxy be cfg req)) ''Cache-Control'' = Some ''no-cache'' \<and>
         calls (gcsProxy be cfg req) =
           [Exists (bucketName cfg) (filePath cfg req),
            GetMetadata (bucketName cfg) (filePath cfg req),
            CreateReadStream (bucketName cfg) (filePath cfg req) False] \<and>
         statusCode (res (gcsProxy be cfg req)) = 200 \<and>
         body (res (gcsProxy be cfg req)) =
           (if httpMethod req = ''HEAD'' then Ended else Piped bytes)"
proof -
  let ?w = "proxyEntry\<lparr>calls := calls proxyEntry @
              [Exists (bucketName cfg) (filePath cfg req),
               GetMetadata (bucketName cfg) (filePath cfg req)]\<rparr>"
  let ?d = "deliver be (bucketName cfg) (filePath cfg req) md ?w"
  have eq: "gcsProxy be cfg req = headResponse req ?d"
    unfolding gcsProxy_next [OF assms(1)] by (simp only: handle_deliver [OF assms(2,3,4)])
  have r: "res ?w = res proxyEntry" by simp
  have d: "res ?d = (setMetadataHeaders md (res proxyEntry))\<lparr>body := Piped bytes\<rparr>"
    using deliver_streams [OF assms(5), of md ?w] by (simp only: r)
  have h: "headers (res (gcsProxy be cfg req)) = headers (setMetadataHeaders md (res proxyEntry))"
    by (simp add: eq headResponse_fields d)
  have "headers (res (gcsProxy be cfg req)) ''ETag'' =
           (if truthy (etag md) then etag md else None)"
    by (simp add: h setMetadataHeaders_headers proxyEntry_fields(2))
  moreover have "headers (res (gcsProxy be cfg req)) ''Content-Type'' =
           (if truthy (contentType md) then map_option withDefaultCharset (contentType md)
            else None)"
    by (simp add: h setMetadataHeaders_headers proxyEntry_fields(2))
  moreover have "\<forall>v. contentType md = Some v \<longrightarrow>
            withDefaultCharset v = v \<or> withDefaultCharset v = v @ ''; charset=utf-8''"
    using withDefaultCharset_cases by blast
  moreover have "headers (res (gcsProxy be cfg req)) ''Content-Encoding'' =
           (if truthy (contentEncoding md) then contentEncoding md else None)"
    by (simp add: h setMetadataHeaders_headers proxyEntry_fields(2))
  moreover have "headers (res (gcsProxy be cfg req)) ''Cache-Control'' = Some ''no-cache''"
    by (simp add: h setMetadataHeaders_headers)
  moreover have "calls (gcsProxy be cfg req) =
           [Exists (bucketName cfg) (filePath cfg req),
            GetMetadata (bucketName cfg) (filePath cfg req),
            CreateReadStream (bucketName cfg) (filePath cfg req) False]"
    by (simp add: eq headResponse_fields deliver_calls proxyEntry_fields)
  moreover have "statusCode (res (gcsProxy be cfg req)) = 200"
    by (simp add: eq headResponse_fields d setMetadataHeaders_fields proxyEntry_fields(1))
  moreover have "body (res (gcsProxy be cfg req)) =
           (if httpMethod req = ''HEAD'' then Ended else Piped bytes)"
    by (simp add: eq headResponse_body d)
  ultimately show ?thesis by blast
qed

text \<open>
  C4, at concrete requests. An object with ETag \<open>"abc"\<close>, content type
  \<open>application/wasm\<close> and content encoding \<open>gzip\<close>, asked for with the validator
  \<open>"xyz"\<close>, is delivered with those three headers and \<open>Cache-Control: no-cache\<close>. A
  page with content type \<open>text/html\<close> and no content encoding is delivered with
  Content-Type \<open>text/html; charset=utf-8\<close> and without Content-Encoding.
\<close>

theorem delivery_headers_witness:
  "headers (res (gcsProxy (fakeBackend (Inr True) (Inr sampleMetadata) (Inr ''bytes''))
      sampleConfig (sampleRequest ''/Build/app.wasm.gz'' (Some etagXyz)))) ''ETag'' =
     Some etagAbc \<and>
   headers (res (gcsProxy (fakeBackend (Inr True) (Inr sampleMetadata) (Inr ''bytes''))
      sampleConfig (sampleRequest ''/Build/app.wasm.gz'' (Some etagXyz)))) ''Content-Type'' =
     Some ''application/wasm'' \<and>
   headers (res (gcsProxy (fakeBackend (Inr True) (Inr sampleMetadata) (Inr ''bytes''))
      sampleConfig (sampleRequest ''/Build/app.wasm.gz'' (Some etagXyz)))) ''Content-Encoding'' =
     Some ''gzip'' \<and>
   headers (res (gcsProxy (fakeBackend (Inr True) (Inr sampleMetadata) (Inr ''bytes''))
      sampleConfig (sampleRequest ''/Build/app.wasm.gz'' (Some etagXyz)))) ''Cache-Control'' =
     Some ''no-cache'' \<and>
   calls (gcsProxy (fakeBackend (Inr True) (Inr sampleMetadata) (Inr ''bytes''))
      sampleConfig (sampleRequest ''/Build/app.wasm.gz'' (Some etagXyz))) =
     [Exists ''builds'' ''game/Build/app.wasm.gz'',
      GetMetadata ''builds'' ''game/Build/app.wasm.gz'',
      CreateReadStream ''builds'' ''game/Build/app.wasm.gz'' False] \<and>
   statusCode (res (gcsProxy (fakeBackend (Inr True) (Inr sampleMetadata) (Inr ''bytes''))
      sampleConfig (sampleRequest ''/Build/app.wasm.gz'' (Some etagXyz)))) = 200 \<and>
   body (res (gcsProxy (fakeBackend (Inr True) (Inr sampleMetadata) (Inr ''bytes''))
      sampleConfig (sampleRequest ''/Build/app.wasm.gz'' (Some etagXyz)))) = Piped ''bytes'' \<and>
   headers (res (gcsProxy (fakeBackend (Inr True) (Inr pageMetadata) (Inr ''<html>''))
      sampleConfig (sampleRequest ''/'' None))) ''Content-Type'' =
     Some ''text/html; charset=utf-8'' \<and>
   headers (res (gcsProxy (fakeBackend (Inr True) (Inr pageMetadata) (Inr ''<html>''))
      sampleConfig (sampleRequest ''/'' None))) ''Content-Encoding'' = None"
proof -
  let ?be = "fakeBackend (Inr True) (Inr sampleMetadata) (Inr ''bytes'')"
  let ?req = "sampleRequest ''/Build/app.wasm.gz'' (Some etagXyz)"
  let ?be' = "fakeBackend (Inr True) (Inr pageMetadata) (Inr ''<html>'')"
  let ?req' = "sampleRequest ''/'' None"
  have get: "toUpperCase (httpMethod (sampleRequest u v)) \<noteq> ''OPTIONS''"
       "httpMethod (sampleRequest u v) \<noteq> ''HEAD''" for u v
    by (simp_all add: sampleRequest_def upper_methods)
  have key: "filePath sampleConfig ?req = ''game/Build/app.wasm.gz''"
    by (simp add: filePath_def sampleConfig_def sampleRequest_def endsWith_def)
  have ex: "file_exists ?be (bucketName sampleConfig) (filePath sampleConfig ?req) = Inr True"
    and md: "getMetadata ?be (bucketName sampleConfig) (filePath sampleConfig ?req) =
             Inr sampleMetadata"
    and st: "createReadStream ?be (bucketName sampleConfig) (filePath sampleConfig ?req) False =
             Inr ''bytes''"
    by (simp_all add: fakeBackend_def)
  have ex': "file_exists ?be' (bucketName sampleConfig) (filePath sampleConfig ?req') = Inr True"
    and md': "getMetadata ?be' (bucketName sampleConfig) (filePath sampleConfig ?req') =
             Inr pageMetadata"
    and st': "createReadStream ?be' (bucketName sampleConfig) (filePath sampleConfig ?req')
               False = Inr ''<html>''"
    by (simp_all add: fakeBackend_def)
  have nm: "\<not> notModified ?req sampleMetadata"
    by (simp add: notModified_def sampleRequest_def sampleMetadata_def truthy_def
          etagAbc_def etagXyz_def)
  have nm': "\<not> notModified ?req' pageMetadata"
    by (simp add: notModified_def sampleRequest_def truthy_def)
  have t: "truthy (Some etagAbc)" "truthy (Some ''application/wasm'')" "truthy (Some ''gzip'')"
       "truthy (Some ''text/html'')" "\<not> truthy None"
    by (simp_all add: truthy_def etagAbc_def)
  have v: "etag sampleMetadata = Some etagAbc"
       "contentType sampleMetadata = Some ''application/wasm''"
       "contentEncoding sampleMetadata = Some ''gzip''"
       "bucketName sampleConfig = ''builds''"
       "contentType pageMetadata = Some ''text/html''"
       "contentEncoding pageMetadata = None"
    by (simp_all add: sampleMetadata_def sampleConfig_def pageMetadata_def)
  have c: "withDefaultCharset ''application/wasm'' = ''application/wasm''"
       "withDefaultCharset ''text/html'' = ''text/html; charset=utf-8''"
    by (simp_all add: withDefaultCharset_def defaultCharset_def startsWith_def lower_fields)
  have a: "headers (res (gcsProxy ?be sampleConfig ?req)) ''ETag'' = Some etagAbc \<and>
     headers (res (gcsProxy ?be sampleConfig ?req)) ''Content-Type'' = Some ''application/wasm'' \<and>
     headers (res (gcsProxy ?be sampleConfig ?req)) ''Content-Encoding'' = Some ''gzip'' \<and>
     headers (res (gcsProxy ?be sampleConfig ?req)) ''Cache-Control'' = Some ''no-cache'' \<and>
     calls (gcsProxy ?be sampleConfig ?req) =
       [Exists ''builds'' ''game/Build/app.wasm.gz'',
        GetMetadata ''builds'' ''game/Build/app.wasm.gz'',
        CreateReadStream ''builds'' ''game/Build/app.wasm.gz'' False] \<and>
     statusCode (res (gcsProxy ?be sampleConfig ?req)) = 200 \<and>
     body (res (gcsProxy ?be sampleConfig ?req)) = Piped ''bytes''"
    using delivery_headers [OF get(1) ex md nm st]
    by (simp add: t v key c get)
  have b: "headers (res (gcsProxy ?be' sampleConfig ?req')) ''Content-Type'' =
       Some ''text/html; charset=utf-8'' \<and>
     headers (res (gcsProxy ?be' sampleConfig ?req')) ''Content-Encoding'' = None"
    using delivery_headers [OF get(1) ex' md' nm' st']
    by (simp add: t v c)
  from a b show ?thesis by simp
qed


lemma handle_304:
  assumes "statusCode (res w) \<noteq> 304"
      and "statusCode (res (handleRequest be cfg req w)) = 304"
  shows "handleRequest be cfg req w =
           w\<lparr>calls := calls w @ [Exists (bucketName cfg) (filePath cfg req),
                                  GetMetadata (bucketName cfg) (filePath cfg req)],
             res := (res w)\<lparr>statusCode := 304, body := Ended\<rparr>\<rparr>"
proof (cases "file_exists be (bucketName cfg) (filePath cfg req)")
  case (Inl e)
  with assms(2) show ?thesis
    by (simp add: handle_exists_throws)
next
  case (Inr ex)
  show ?thesis
  proof (cases ex)
    case False
    with Inr assms(2) show ?thesis
      by (simp add: handle_absent)
  next
    case True
    with Inr have ex: "file_exists be (bucketName cfg) (filePath cfg req) = Inr True"
      by simp
    show ?thesis
    proof (cases "getMetadata be (bucketName cfg) (filePath cfg req)")
      case (Inl e)
      with assms(2) show ?thesis
        by (simp add: handle_metadata_throws [OF ex])
    next
      case (Inr md)
      show ?thesis
      proof (cases "notModified req md")
        case True
        show ?thesis
          by (rule handle_not_modified [OF ex Inr True])
      next
        case False
        let ?w = "w\<lparr>calls := calls w @
                    [Exists (bucketName cfg) (filePath cfg req),
                     GetMetadata (bucketName cfg) (filePath cfg req)]\<rparr>"
        have "statusCode (res ?w) = statusCode (res w)"
          by simp
        with deliver_status [of be "bucketName cfg" "filePath cfg req" md ?w]
        have "statusCode (res (handleRequest be cfg req w)) = statusCode (res w) \<or>
              statusCode (res (handleRequest be cfg req w)) = 500"
          by (simp add: handle_deliver [OF ex Inr False])
        with assms show ?thesis by simp
      qed
    qed
  qed
qed

text \<open>
  C9, as stated, fails: the \<open>cors\<close> middleware answers a preflight itself. For the same
  URL, a GET is answered by the handler with status 200 and the object piped, and an
  OPTIONS request is answered with status 204 and no body, without any backend call.
\<close>

theorem proxy_preflight_counterexample:
  "statusCode (res (gcsProxy (fakeBackend (Inr True) (Inr sampleMetadata) (Inr ''bytes''))
      sampleConfig (sampleRequest ''/'' None))) = 200 \<and>
   body (res (gcsProxy (fakeBackend (Inr True) (Inr sampleMetadata) (Inr ''bytes''))
      sampleConfig (sampleRequest ''/'' None))) = Piped ''bytes'' \<and>
   statusCode (res (gcsProxy (fakeBackend (Inr True) (Inr sampleMetadata) (Inr ''bytes''))
      sampleConfig ((sampleRequest ''/'' None)\<lparr>httpMethod := ''OPTIONS''\<rparr>))) = 204 \<and>
   body (res (gcsProxy (fakeBackend (Inr True) (Inr sampleMetadata) (Inr ''bytes''))
      sampleConfig ((sampleRequest ''/'' None)\<lparr>httpMethod := ''OPTIONS''\<rparr>))) = Ended \<and>
   calls (gcsProxy (fakeBackend (Inr True) (Inr sampleMetadata) (Inr ''bytes''))
      sampleConfig ((sampleRequest ''/'' None)\<lparr>httpMethod := ''OPTIONS''\<rparr>)) = []"
proof -
  let ?be = "fakeBackend (Inr True) (Inr sampleMetadata) (Inr ''bytes'')"
  let ?get = "sampleRequest ''/'' None"
  let ?opt = "(sampleRequest ''/'' None)\<lparr>httpMethod := ''OPTIONS''\<rparr>"
  have g: "toUpperCase (httpMethod ?get) \<noteq> ''OPTIONS''" "httpMethod ?get \<noteq> ''HEAD''"
    by (simp_all add: sampleRequest_def upper_methods)
  have o: "toUpperCase (httpMethod ?opt) = ''OPTIONS''"
    by (simp add: upper_methods)
  have ex: "file_exists ?be (bucketName sampleConfig) (filePath sampleConfig ?get) = Inr True"
    and md: "getMetadata ?be (bucketName sampleConfig) (filePath sampleConfig ?get) =
             Inr sampleMetadata"
    and st: "createReadStream ?be (bucketName sampleConfig) (filePath sampleConfig ?get) False =
             Inr ''bytes''"
    by (simp_all add: fakeBackend_def)
  have nm: "\<not> notModified ?get sampleMetadata"
    by (simp add: notModified_def sampleRequest_def truthy_def)
  let ?w = "proxyEntry\<lparr>calls := calls proxyEntry @
              [Exists (bucketName sampleConfig) (filePath sampleConfig ?get),
               GetMetadata (bucketName sampleConfig) (filePath sampleConfig ?get)]\<rparr>"
  have "gcsProxy ?be sampleConfig ?get =
          deliver ?be (bucketName sampleConfig) (filePath sampleConfig ?get) sampleMetadata ?w"
    unfolding gcsProxy_next [OF g(1)] headResponse_other [OF g(2)]
    by (rule handle_deliver [OF ex md nm])
  moreover have "res (deliver ?be (bucketName sampleConfig) (filePath sampleConfig ?get)
                   sampleMetadata ?w) =
                 (setMetadataHeaders sampleMetadata (res ?w))\<lparr>body := Piped ''bytes''\<rparr>"
    by (rule deliver_streams [OF st])
  ultimately have 1: "statusCode (res (gcsProxy ?be sampleConfig ?get)) = 200"
    and 2: "body (res (gcsProxy ?be sampleConfig ?get)) = Piped ''bytes''"
    by (simp_all add: setMetadataHeaders_fields proxyEntry_fields(1))
  from 1 2 show ?thesis
    by (simp add: gcsProxy_preflight [OF o])
qed

text \<open>
  C9, amended. In remote mode, two requests that differ in the method only get the same
  response when neither method is OPTIONS nor HEAD. A request whose method is OPTIONS (in
  any letter case) is answered by the \<open>cors\<close> middleware with status 204 and no body,
  and the handler is not called. A HEAD request gets the status and the headers of the GET
  response, after the same backend calls, and no body.
\<close>

theorem proxy_method_classes:
  "(toUpperCase m \<noteq> ''OPTIONS'' \<and> toUpperCase n \<noteq> ''OPTIONS'' \<and> m \<noteq> ''HEAD'' \<and> n \<noteq> ''HEAD'' \<longrightarrow>
      gcsProxy be cfg (req\<lparr>httpMethod := m\<rparr>) = gcsProxy be cfg (req\<lparr>httpMethod := n\<rparr>)) \<and>
   (toUpperCase m = ''OPTIONS'' \<longrightarrow>
      statusCode (res (gcsProxy be cfg (req\<lparr>httpMethod := m\<rparr>))) = 204 \<and>
      body (res (gcsProxy be cfg (req\<lparr>httpMethod := m\<rparr>))) = Ended \<and>
      calls (gcsProxy be cfg (req\<lparr>httpMethod := m\<rparr>)) = []) \<and>
   statusCode (res (gcsProxy be cfg (req\<lparr>httpMethod := ''HEAD''\<rparr>))) =
     statusCode (res (gcsProxy be cfg (req\<lparr>httpMethod := ''GET''\<rparr>))) \<and>
   headers (res (gcsProxy be cfg (req\<lparr>httpMethod := ''HEAD''\<rparr>))) =
     headers (res (gcsProxy be cfg (req\<lparr>httpMethod := ''GET''\<rparr>))) \<and>
   calls (gcsProxy be cfg (req\<lparr>httpMethod := ''HEAD''\<rparr>)) =
     calls (gcsProxy be cfg (req\<lparr>httpMethod := ''GET''\<rparr>)) \<and>
   (\<forall>s. body (res (gcsProxy be cfg (req\<lparr>httpMethod := ''HEAD''\<rparr>))) \<noteq> Sent s \<and>
        body (res (gcsProxy be cfg (req\<lparr>httpMethod := ''HEAD''\<rparr>))) \<noteq> Piped s)"
proof -
  have next_eq: "gcsProxy be cfg (req\<lparr>httpMethod := k\<rparr>) =
      headResponse (req\<lparr>httpMethod := k\<rparr>) (handleRequest be cfg req proxyEntry)"
    if "toUpperCase k \<noteq> ''OPTIONS''" for k
    using that gcsProxy_next [of "req\<lparr>httpMethod := k\<rparr>" be cfg]
    by (simp add: handleRequest_method)
  have 1: "gcsProxy be cfg (req\<lparr>httpMethod := m\<rparr>) = gcsProxy be cfg (req\<lparr>httpMethod := n\<rparr>)"
    if "toUpperCase m \<noteq> ''OPTIONS'' \<and> toUpperCase n \<noteq> ''OPTIONS'' \<and> m \<noteq> ''HEAD'' \<and> n \<noteq> ''HEAD''"
    using that by (simp add: next_eq headResponse_other)
  have 2: "statusCode (res (gcsProxy be cfg (req\<lparr>httpMethod := m\<rparr>))) = 204 \<and>
      body (res (gcsProxy be cfg (req\<lparr>httpMethod := m\<rparr>))) = Ended \<and>
      calls (gcsProxy be cfg (req\<lparr>httpMethod := m\<rparr>)) = []"
    if "toUpperCase m = ''OPTIONS''"
    using that gcsProxy_preflight [of "req\<lparr>httpMethod := m\<rparr>" be cfg] by simp
  have h: "gcsProxy be cfg (req\<lparr>httpMethod := ''HEAD''\<rparr>) =
      headResponse (req\<lparr>httpMethod := ''HEAD''\<rparr>) (handleRequest be cfg req proxyEntry)"
    by (rule next_eq) (rule upper_methods)
  have g: "gcsProxy be cfg (req\<lparr>httpMethod := ''GET''\<rparr>) = handleRequest be cfg req proxyEntry"
    by (simp add: next_eq upper_methods headResponse_other)
  have 3: "statusCode (res (gcsProxy be cfg (req\<lparr>httpMethod := ''HEAD''\<rparr>))) =
     statusCode (res (gcsProxy be cfg (req\<lparr>httpMethod := ''GET''\<rparr>)))"
    by (simp only: h g headResponse_fields)
  have 4: "headers (res (gcsProxy be cfg (req\<lparr>httpMethod := ''HEAD''\<rparr>))) =
     headers (res (gcsProxy be cfg (req\<lparr>httpMethod := ''GET''\<rparr>)))"
    by (simp only: h g headResponse_fields)
  have 5: "calls (gcsProxy be cfg (req\<lparr>httpMethod := ''HEAD''\<rparr>)) =
     calls (gcsProxy be cfg (req\<lparr>httpMethod := ''GET''\<rparr>))"
    by (simp only: h g headResponse_fields)
  have 6: "body (res (gcsProxy be cfg (req\<lparr>httpMethod := ''HEAD''\<rparr>))) \<noteq> Sent s \<and>
        body (res (gcsProxy be cfg (req\<lparr>httpMethod := ''HEAD''\<rparr>))) \<noteq> Piped s" for s
    by (simp add: h headResponse_body split: body.splits)
  from 1 2 3 4 5 6 show ?thesis by blast
qed

text \<open>
  C9, amended, at concrete requests for \<open>/\<close>: POST and DELETE are answered alike, and
  OPTIONS is answered with status 204 without a backend call.
\<close>

theorem proxy_method_classes_witness:
  "gcsProxy (fakeBackend (Inr True) (Inr sampleMetadata) (Inr ''bytes'')) sampleConfig
     ((sampleRequest ''/'' None)\<lparr>httpMethod := ''POST''\<rparr>) =
   gcsProxy (fakeBackend (Inr True) (Inr sampleMetadata) (Inr ''bytes'')) sampleConfig
     ((sampleRequest ''/'' None)\<lparr>httpMethod := ''DELETE''\<rparr>) \<and>
   statusCode (res (gcsProxy (fakeBackend (Inr True) (Inr sampleMetadata) (Inr ''bytes''))
     sampleConfig ((sampleRequest ''/'' None)\<lparr>httpMethod := ''OPTIONS''\<rparr>))) = 204 \<and>
   calls (gcsProxy (fakeBackend (Inr True) (Inr sampleMetadata) (Inr ''bytes''))
     sampleConfig ((sampleRequest ''/'' None)\<lparr>httpMethod := ''OPTIONS''\<rparr>)) = []"
proof -
  let ?be = "fakeBackend (Inr True) (Inr sampleMetadata) (Inr ''bytes'')"
  let ?req = "sampleRequest ''/'' None"
  have a: "toUpperCase ''POST'' \<noteq> ''OPTIONS'' \<and> toUpperCase ''DELETE'' \<noteq> ''OPTIONS'' \<and>
           ''POST'' \<noteq> ''HEAD'' \<and> ''DELETE'' \<noteq> ''HEAD''"
    by (simp add: upper_methods)
  have o: "toUpperCase ''OPTIONS'' = ''OPTIONS''"
    by (rule upper_methods)
  from proxy_method_classes
    [where be = ?be and cfg = sampleConfig and req = ?req and m = "''POST''" and n = "''DELETE''"]
    a
  have 1: "gcsProxy ?be sampleConfig (?req\<lparr>httpMethod := ''POST''\<rparr>) =
           gcsProxy ?be sampleConfig (?req\<lparr>httpMethod := ''DELETE''\<rparr>)"
    by blast
  from proxy_method_classes
    [where be = ?be and cfg = sampleConfig and req = ?req and m = "''OPTIONS''"
       and n = "''GET''"] o
  have 2: "statusCode (res (gcsProxy ?be sampleConfig (?req\<lparr>httpMethod := ''OPTIONS''\<rparr>))) = 204 \<and>
           calls (gcsProxy ?be sampleConfig (?req\<lparr>httpMethod := ''OPTIONS''\<rparr>)) = []"
    by blast
  from 1 2 show ?thesis by simp
qed

text \<open>
  C10. A remote-mode response with status 304 comes after exactly two backend calls, the
  existence check and the metadata fetch, with no read stream opened; it has no ETag,
  Content-Type, Content-Encoding or Cache-Control header, and no body.
\<close>

theorem not_modified_frame:
  assumes "statusCode (res (gcsProxy be cfg req)) = 304"
  shows "calls (gcsProxy be cfg req) =
           [Exists (bucketName cfg) (filePath cfg req),
            GetMetadata (bucketName cfg) (filePath cfg req)] \<and>
         headers (res (gcsProxy be cfg req)) ''ETag'' = None \<and>
         headers (res (gcsProxy be cfg req)) ''Content-Type'' = None \<and>
         headers (res (gcsProxy be cfg req)) ''Content-Encoding'' = None \<and>
         headers (res (gcsProxy be cfg req)) ''Cache-Control'' = None \<and>
         body (res (gcsProxy be cfg req)) = Ended"
proof (cases "toUpperCase (httpMethod req) = ''OPTIONS''")
  case True
  with assms show ?thesis
    by (simp add: gcsProxy_preflight)
next
  case False
  let ?h = "handleRequest be cfg req proxyEntry"
  have eq: "gcsProxy be cfg req = headResponse req ?h"
    by (rule gcsProxy_next [OF False])
  with assms have "statusCode (res ?h) = 304"
    by (simp add: headResponse_fields)
  then have h: "?h =
      proxyEntry\<lparr>calls := calls proxyEntry @
                     [Exists (bucketName cfg) (filePath cfg req),
                      GetMetadata (bucketName cfg) (filePath cfg req)],
                 res := (res proxyEntry)\<lparr>statusCode := 304, body := Ended\<rparr>\<rparr>"
    by (intro handle_304) (simp add: proxyEntry_fields(1))
  have "calls (gcsProxy be cfg req) =
           [Exists (bucketName cfg) (filePath cfg req),
            GetMetadata (bucketName cfg) (filePath cfg req)]"
    unfolding eq headResponse_fields by (subst h) (simp add: proxyEntry_fields(4))
  moreover have "headers (res (gcsProxy be cfg req)) = headers (res proxyEntry)"
    unfolding eq headResponse_fields by (subst h) simp
  moreover have "body (res (gcsProxy be cfg req)) = Ended"
    unfolding eq headResponse_body by (subst h)+ simp
  ultimately show ?thesis
    by (simp add: proxyEntry_fields(2))
qed

text \<open>
  C10, at a concrete request: the validator \<open>"abc"\<close> on an object with ETag \<open>"abc"\<close>
  gives 304 after the two calls on \<open>game/index.html\<close>.
\<close>

theorem not_modified_frame_witness:
  "statusCode (res (gcsProxy (fakeBackend (Inr True) (Inr sampleMetadata) (Inr ''bytes''))
      sampleConfig (sampleRequest ''/'' (Some etagAbc)))) = 304 \<and>
   calls (gcsProxy (fakeBackend (Inr True) (Inr sampleMetadata) (Inr ''bytes''))
      sampleConfig (sampleRequest ''/'' (Some etagAbc))) =
     [Exists ''builds'' ''game/index.html'', GetMetadata ''builds'' ''game/index.html''] \<and>
   headers (res (gcsProxy (fakeBackend (Inr True) (Inr sampleMetadata) (Inr ''bytes''))
      sampleConfig (sampleRequest ''/'' (Some etagAbc)))) ''ETag'' = None \<and>
   body (res (gcsProxy (fakeBackend (Inr True) (Inr sampleMetadata) (Inr ''bytes''))
      sampleConfig (sampleRequest ''/'' (Some etagAbc)))) = Ended"
proof -
  let ?be = "fakeBackend (Inr True) (Inr sampleMetadata) (Inr ''bytes'')"
  let ?req = "sampleRequest ''/'' (Some etagAbc)"
  have key: "filePath sampleConfig ?req = ''game/index.html''"
    by (simp add: filePath_def sampleConfig_def sampleRequest_def endsWith_def)
  have g: "toUpperCase (httpMethod ?req) \<noteq> ''OPTIONS''"
    by (simp add: sampleRequest_def upper_methods)
  have ex: "file_exists ?be (bucketName sampleConfig) (filePath sampleConfig ?req) = Inr True"
    and md: "getMetadata ?be (bucketName sampleConfig) (filePath sampleConfig ?req) =
             Inr sampleMetadata"
    by (simp_all add: fakeBackend_def)
  have nm: "notModified ?req sampleMetadata"
    by (simp add: notModified_def sampleRequest_def sampleMetadata_def truthy_def etagAbc_def)
  have s: "statusCode (res (gcsProxy ?be sampleConfig ?req)) = 304"
    by (simp add: gcsProxy_next [OF g] headResponse_fields handle_not_modified [OF ex md nm])
  have b: "bucketName sampleConfig = ''builds''"
    by (simp add: sampleConfig_def)
  from not_modified_frame [OF s] s show ?thesis
    by (simp add: key b)
qed


section \<open>Facts about parseGcsPath and filePath\<close>




lemma parseGcsPath_other_scheme: "\<not> startsWith s ''gs://'' \<Longrightarrow> parseGcsPath s = None"
  by (simp add: parseGcsPath_def)


lemma filePath_no_prefix:
  "prefix cfg = [] \<Longrightarrow>
   filePath cfg req = (if url req = ''/'' then ''index.html'' else drop 1 (url req))"
  by (simp add: filePath_def)



section \<open>Claims about the locator and the object key\<close>

text \<open>
  C3. The key is to be computed from the path segment of the request: \<open>index.html\<close> for
  the path \<open>/\<close>, else the path without its leading slash, behind the prefix. The handler
  computes it from \<open>req.url\<close>, which carries the query string: the request \<open>GET /?v=2\<close>
  has the path \<open>/\<close>, and under the prefix \<open>game\<close> the handler looks up \<open>game/?v=2\<close>
  instead of \<open>game/index.html\<close>.
\<close>

theorem filePath_query_string:
  "filePath sampleConfig (sampleRequest ''/?v=2'' None) = ''game/?v=2'' \<and>
   filePath sampleConfig (sampleRequest ''/?v=2'' None) \<noteq> ''game/index.html'' \<and>
   filePath sampleConfig (sampleRequest ''/'' None) = ''game/index.html''"
  by (simp add: filePath_def sampleConfig_def sampleRequest_def endsWith_def)

text \<open>
  C5. A string \<open>gs://b/p\<close> is to parse to the bucket \<open>b\<close> and the prefix \<open>p\<close>. The
  dot of the regular expression does not match a line terminator and the pattern is not
  anchored at the end, so for the string \<open>gs://b/p\<close>, line feed, \<open>q\<close> the parser returns
  the prefix \<open>p\<close> instead of the three characters after the slash.
\<close>

theorem parseGcsPath_line_feed:
  "parseGcsPath (''gs://b/'' @ ''p'' @ [CHR 0x0A] @ ''q'') =
     Some \<lparr>bucketName = ''b'', prefix = ''p''\<rparr> \<and>
   parseGcsPath (''gs://b/'' @ ''p'' @ [CHR 0x0A] @ ''q'') \<noteq>
     Some \<lparr>bucketName = ''b'', prefix = ''p'' @ [CHR 0x0A] @ ''q''\<rparr>"
  by (simp add: parseGcsPath_def startsWith_def lineTerminator_def)





section \<open>Facts about the header middleware\<close>

lemma toLowerCase_exts:
  "toLowerCase ''.wasm'' = ''.wasm''" "toLowerCase ''.js'' = ''.js''"
  "toLowerCase ''.gz'' = ''.gz''" "toLowerCase ''.br'' = ''.br''"
  "toLowerCase ''.data'' = ''.data''" "toLowerCase ''.unityweb'' = ''.unityweb''"
  by (simp_all add: toLowerCase_def lowerChar_def)

lemma basename_part_suffix:
  assumes "x \<noteq> []" and "CHR ''/'' \<notin> set x"
  shows "basename_part (stem @ CHR ''.'' # x) =
           rev (takeWhile (\<lambda>c. c \<noteq> CHR ''/'') (rev stem)) @ CHR ''.'' # x"
proof -
  obtain y ys where r: "rev x = y # ys"
    using assms(1) by (cases "rev x") auto
  then have "y \<in> set x"
    by (metis list.set_intros(1) set_rev)
  with assms(2) have y: "y \<noteq> CHR ''/''" by auto
  have d: "dropWhile (\<lambda>c. c = CHR ''/'') (rev (stem @ CHR ''.'' # x)) =
           rev x @ CHR ''.'' # rev stem"
    using y by (simp add: r)
  have "takeWhile (\<lambda>c. c \<noteq> CHR ''/'') (rev x @ CHR ''.'' # rev stem) =
           rev x @ takeWhile (\<lambda>c. c \<noteq> CHR ''/'') (CHR ''.'' # rev stem)"
    by (rule takeWhile_append2) (use assms(2) in auto)
  then have t: "takeWhile (\<lambda>c. c \<noteq> CHR ''/'') (rev x @ CHR ''.'' # rev stem) =
           rev x @ CHR ''.'' # takeWhile (\<lambda>c. c \<noteq> CHR ''/'') (rev stem)"
    by simp
  show ?thesis
    unfolding basename_part_def d t by simp
qed

lemma extname_suffix:
  assumes "x \<noteq> []" and "CHR ''/'' \<notin> set x" and "CHR ''.'' \<notin> set x"
      and "stem \<noteq> []" and "last stem \<noteq> CHR ''/''"
  shows "extname (stem @ CHR ''.'' # x) = CHR ''.'' # x"
proof -
  let ?b0 = "rev (takeWhile (\<lambda>c. c \<noteq> CHR ''/'') (rev stem))"
  have base: "basename_part (stem @ CHR ''.'' # x) = ?b0 @ CHR ''.'' # x"
    by (rule basename_part_suffix [OF assms(1,2)])
  obtain z zs where rs: "rev stem = z # zs"
    using assms(4) by (cases "rev stem") auto
  then have "z = last stem"
    by (metis assms(4) hd_rev list.sel(1))
  with assms(5) have "z \<noteq> CHR ''/''" by simp
  then have "takeWhile (\<lambda>c. c \<noteq> CHR ''/'') (rev stem) \<noteq> []"
    unfolding rs by simp
  then have b0: "?b0 \<noteq> []" by simp
  have "takeWhile (\<lambda>c. c \<noteq> CHR ''.'') (rev x @ CHR ''.'' # rev ?b0) =
          rev x @ takeWhile (\<lambda>c. c \<noteq> CHR ''.'') (CHR ''.'' # rev ?b0)"
    by (rule takeWhile_append2) (use assms(3) in auto)
  then have e: "rev (takeWhile (\<lambda>c. c \<noteq> CHR ''.'') (rev (?b0 @ CHR ''.'' # x))) = x"
    by simp
  have l: "length (CHR ''.'' # x) \<noteq> length (?b0 @ CHR ''.'' # x)"
    using b0 by simp
  have dd: "?b0 @ CHR ''.'' # x \<noteq> ''..''"
  proof
    assume "?b0 @ CHR ''.'' # x = ''..''"
    then have "length (?b0 @ CHR ''.'' # x) = 2" by simp
    moreover have "length ?b0 \<ge> 1" using b0 by (cases ?b0) auto
    moreover have "length x \<ge> 1" using assms(1) by (cases x) auto
    ultimately show False by simp
  qed
  have m: "CHR ''.'' \<in> set (?b0 @ CHR ''.'' # x)" by simp
  show ?thesis
    unfolding extname_def base Let_def e using l dd m by (simp only: if_False if_True simp_thms)
qed

lemma extname_known_suffix:
  assumes "e \<in> {''.wasm'', ''.js'', ''.gz'', ''.br'', ''.data'', ''.unityweb''}"
      and "stem \<noteq> []" and "last stem \<noteq> CHR ''/''"
  shows "toLowerCase (extname (stem @ e)) = e"
proof -
  have "extname (stem @ e) = e"
    using assms(1) extname_suffix [OF _ _ _ assms(2,3)] by auto
  moreover have "toLowerCase e = e"
    using assms(1) toLowerCase_exts by auto
  ultimately show ?thesis by simp
qed

lemma headerMiddleware_ext:
  "headerMiddleware False req r =
     (let ext = toLowerCase (extname (url req))
      in if ext = ''.wasm'' then set_header ''Content-Type'' ''application/wasm'' r
         else if ext = ''.js'' then set_header ''Content-Type'' ''application/javascript'' r
         else if ext = ''.gz'' then
           set_header ''Content-Type'' (getContentTypeForCompressedFile (url req))
             (set_header ''Content-Encoding'' ''gzip'' r)
         else if ext = ''.br'' then
           set_header ''Content-Type'' (getContentTypeForCompressedFile (url req))
             (set_header ''Content-Encoding'' ''br'' r)
         else if ext = ''.data'' then set_header ''Content-Type'' ''application/octet-stream'' r
         else if ext = ''.unityweb'' then
           set_header ''Content-Type'' ''application/octet-stream'' r
         else r)"
  by (simp add: headerMiddleware_def)

lemma charset_values:
  "withDefaultCharset ''application/wasm'' = ''application/wasm''"
  "withDefaultCharset ''application/javascript'' = ''application/javascript; charset=utf-8''"
  "withDefaultCharset ''application/octet-stream'' = ''application/octet-stream''"
  by (simp_all add: withDefaultCharset_def defaultCharset_def startsWith_def lower_fields)

lemma headers_ext:
  "toLowerCase (extname (url req)) = ''.wasm'' \<Longrightarrow>
     headers (headerMiddleware False req r) = (headers r)(''Content-Type'' \<mapsto> ''application/wasm'')"
  "toLowerCase (extname (url req)) = ''.js'' \<Longrightarrow>
     headers (headerMiddleware False req r) =
       (headers r)(''Content-Type'' \<mapsto> ''application/javascript; charset=utf-8'')"
  "toLowerCase (extname (url req)) = ''.data'' \<Longrightarrow>
     headers (headerMiddleware False req r) =
       (headers r)(''Content-Type'' \<mapsto> ''application/octet-stream'')"
  "toLowerCase (extname (url req)) = ''.unityweb'' \<Longrightarrow>
     headers (headerMiddleware False req r) =
       (headers r)(''Content-Type'' \<mapsto> ''application/octet-stream'')"
  "toLowerCase (extname (url req)) = ''.gz'' \<Longrightarrow>
     headers (headerMiddleware False req r) =
       (headers r)(''Content-Encoding'' \<mapsto> ''gzip'',
                   ''Content-Type'' \<mapsto>
                     withDefaultCharset (getContentTypeForCompressedFile (url req)))"
  "toLowerCase (extname (url req)) = ''.br'' \<Longrightarrow>
     headers (headerMiddleware False req r) =
       (headers r)(''Content-Encoding'' \<mapsto> ''br'',
                   ''Content-Type'' \<mapsto>
                     withDefaultCharset (getContentTypeForCompressedFile (url req)))"
  by (simp_all add: headerMiddleware_ext set_header_other set_header_content_type
        setHeader_def charset_values)

lemma headerMiddleware_no_ext:
  "toLowerCase (extname (url req)) = [] \<Longrightarrow> headerMiddleware False req r = r"
  by (simp add: headerMiddleware_ext)

lemma headerMiddleware_url:
  assumes "url req' = url req"
  shows "headerMiddleware False req' r = headerMiddleware False req r"
  unfolding headerMiddleware_def assms ..

section \<open>The claim about local mode\<close>

text \<open>
  C7, as stated, fails. The middleware classifies by \<open>path.extname\<close>, for which a last
  path component that is only the extension has no extension: the URL \<open>/.wasm\<close> ends in
  \<open>.wasm\<close> and gets no Content-Type. And the Content-Type stored for \<open>/app.js\<close> is
  \<open>application/javascript; charset=utf-8\<close>, since \<open>res.set\<close> adds the charset.
\<close>

theorem header_classification_counterexample:
  "headers (headerMiddleware False (sampleRequest ''/.wasm'' None) freshResponse)
     ''Content-Type'' = None \<and>
   headers (headerMiddleware False (sampleRequest ''/app.js'' None) freshResponse)
     ''Content-Type'' = Some ''application/javascript; charset=utf-8'' \<and>
   headers (headerMiddleware False (sampleRequest ''/app.js'' None) freshResponse)
     ''Content-Type'' \<noteq> Some ''application/javascript''"
proof -
  have u: "url (sampleRequest v None) = v" for v
    by (simp add: sampleRequest_def)
  have e1: "toLowerCase (extname (url (sampleRequest ''/.wasm'' None))) = []"
    unfolding u by code_simp
  have e2: "toLowerCase (extname (url (sampleRequest ''/app.js'' None))) = ''.js''"
    unfolding u by code_simp
  have 1: "headers (headerMiddleware False (sampleRequest ''/.wasm'' None) freshResponse)
     ''Content-Type'' = None"
    by (simp add: headerMiddleware_no_ext [OF e1] freshResponse_def)
  have 2: "headers (headerMiddleware False (sampleRequest ''/app.js'' None) freshResponse)
     ''Content-Type'' = Some ''application/javascript; charset=utf-8''"
    by (simp add: headers_ext(2) [OF e2])
  from 1 2 show ?thesis by simp
qed

text \<open>
  C7, amended. In local mode the headers set by the middleware depend on the request
  through its URL only, by the extension of the URL (\<open>path.extname\<close>, lower-cased):
  \<open>.wasm\<close> gives Content-Type \<open>application/wasm\<close>, \<open>.js\<close> gives
  \<open>application/javascript; charset=utf-8\<close>, \<open>.data\<close> and \<open>.unityweb\<close> give
  \<open>application/octet-stream\<close>; \<open>.gz\<close> gives Content-Encoding \<open>gzip\<close> and \<open>.br\<close>
  gives \<open>br\<close>, both with the Content-Type of \<open>application/wasm\<close> when the URL contains
  \<open>.wasm.\<close>, else of \<open>application/javascript\<close> (stored with the charset) when it
  contains \<open>.js.\<close>, else \<open>application/octet-stream\<close>. A URL that ends in one of these
  extensions has that extension when its last path component has a stem before the
  extension. The URLs \<open>/app.wasm\<close>, \<open>/app.data.gz\<close> and \<open>/app.js.br\<close> are classified
  as the specification lists them, the last with the charset added.
\<close>

theorem local_header_classification:
  "(toLowerCase (extname (url req)) = ''.wasm'' \<longrightarrow>
      headers (headerMiddleware False req r) =
        (headers r)(''Content-Type'' \<mapsto> ''application/wasm'')) \<and>
   (toLowerCase (extname (url req)) = ''.js'' \<longrightarrow>
      headers (headerMiddleware False req r) =
        (headers r)(''Content-Type'' \<mapsto> ''application/javascript; charset=utf-8'')) \<and>
   (toLowerCase (extname (url req)) = ''.data'' \<longrightarrow>
      headers (headerMiddleware False req r) =
        (headers r)(''Content-Type'' \<mapsto> ''application/octet-stream'')) \<and>
   (toLowerCase (extname (url req)) = ''.unityweb'' \<longrightarrow>
      headers (headerMiddleware False req r) =
        (headers r)(''Content-Type'' \<mapsto> ''application/octet-stream'')) \<and>
   (toLowerCase (extname (url req)) = ''.gz'' \<longrightarrow>
      headers (headerMiddleware False req r) =
        (headers r)(''Content-Encoding'' \<mapsto> ''gzip'',
                    ''Content-Type'' \<mapsto>
                      withDefaultCharset (getContentTypeForCompressedFile (url req)))) \<and>
   (toLowerCase (extname (url req)) = ''.br'' \<longrightarrow>
      headers (headerMiddleware False req r) =
        (headers r)(''Content-Encoding'' \<mapsto> ''br'',
                    ''Content-Type'' \<mapsto>
                      withDefaultCharset (getContentTypeForCompressedFile (url req)))) \<and>
   withDefaultCharset (getContentTypeForCompressedFile (url req)) =
     (if includes_str (url req) ''.wasm.'' then ''application/wasm''
      else if includes_str (url req) ''.js.'' then ''application/javascript; charset=utf-8''
      else ''application/octet-stream'') \<and>
   (\<forall>stem e. e \<in> {''.wasm'', ''.js'', ''.gz'', ''.br'', ''.data'', ''.unityweb''} \<and>
        stem \<noteq> [] \<and> last stem \<noteq> CHR ''/'' \<longrightarrow>
      toLowerCase (extname (stem @ e)) = e) \<and>
   (\<forall>req'. url req' = url req \<longrightarrow>
      headerMiddleware False req' r = headerMiddleware False req r) \<and>
   headers (headerMiddleware False (sampleRequest ''/app.wasm'' None) freshResponse) =
     [''Content-Type'' \<mapsto> ''application/wasm''] \<and>
   headers (headerMiddleware False (sampleRequest ''/app.data.gz'' None) freshResponse) =
     [''Content-Encoding'' \<mapsto> ''gzip'', ''Content-Type'' \<mapsto> ''application/octet-stream''] \<and>
   headers (headerMiddleware False (sampleRequest ''/app.js.br'' None) freshResponse) =
     [''Content-Encoding'' \<mapsto> ''br'',
      ''Content-Type'' \<mapsto> ''application/javascript; charset=utf-8'']"
proof -
  have u: "url (sampleRequest v None) = v" for v
    by (simp add: sampleRequest_def)
  have h: "headers freshResponse = Map.empty"
    by (simp add: freshResponse_def)
  have e1: "toLowerCase (extname (url (sampleRequest ''/app.wasm'' None))) = ''.wasm''"
    unfolding u using extname_known_suffix [of "''.wasm''" "''/app''"] by simp
  have e2: "toLowerCase (extname (url (sampleRequest ''/app.data.gz'' None))) = ''.gz''"
    unfolding u using extname_known_suffix [of "''.gz''" "''/app.data''"] by simp
  have e3: "toLowerCase (extname (url (sampleRequest ''/app.js.br'' None))) = ''.br''"
    unfolding u using extname_known_suffix [of "''.br''" "''/app.js''"] by simp
  have c2: "withDefaultCharset (getContentTypeForCompressedFile ''/app.data.gz'') =
              ''application/octet-stream''"
    by (simp add: getContentTypeForCompressedFile_def charset_values)
  have c3: "withDefaultCharset (getContentTypeForCompressedFile ''/app.js.br'') =
              ''application/javascript; charset=utf-8''"
    by (simp add: getContentTypeForCompressedFile_def charset_values)
  have x1: "headers (headerMiddleware False (sampleRequest ''/app.wasm'' None) freshResponse) =
     [''Content-Type'' \<mapsto> ''application/wasm'']"
    by (simp only: headers_ext(1) [OF e1] h)
  have x2: "headers (headerMiddleware False (sampleRequest ''/app.data.gz'' None) freshResponse) =
     [''Content-Encoding'' \<mapsto> ''gzip'', ''Content-Type'' \<mapsto> ''application/octet-stream'']"
    by (simp only: headers_ext(5) [OF e2] h u c2)
  have x3: "headers (headerMiddleware False (sampleRequest ''/app.js.br'' None) freshResponse) =
     [''Content-Encoding'' \<mapsto> ''br'',
      ''Content-Type'' \<mapsto> ''application/javascript; charset=utf-8'']"
    by (simp only: headers_ext(6) [OF e3] h u c3)
  have g: "withDefaultCharset (getContentTypeForCompressedFile (url req)) =
     (if includes_str (url req) ''.wasm.'' then ''application/wasm''
      else if includes_str (url req) ''.js.'' then ''application/javascript; charset=utf-8''
      else ''application/octet-stream'')"
    by (simp add: getContentTypeForCompressedFile_def charset_values)
  have s: "\<forall>stem e. e \<in> {''.wasm'', ''.js'', ''.gz'', ''.br'', ''.data'', ''.unityweb''} \<and>
        stem \<noteq> [] \<and> last stem \<noteq> CHR ''/'' \<longrightarrow>
      toLowerCase (extname (stem @ e)) = e"
    using extname_known_suffix by blast
  have p: "\<forall>req'. url req' = url req \<longrightarrow>
      headerMiddleware False req' r = headerMiddleware False req r"
    using headerMiddleware_url by blast
  show ?thesis
  proof (intro conjI impI)
    show "headers (headerMiddleware False req r) =
            (headers r)(''Content-Type'' \<mapsto> ''application/wasm'')"
      if "toLowerCase (extname (url req)) = ''.wasm''"
      using that by (rule headers_ext(1))
    show "headers (headerMiddleware False req r) =
            (headers r)(''Content-Type'' \<mapsto> ''application/javascript; charset=utf-8'')"
      if "toLowerCase (extname (url req)) = ''.js''"
      using that by (rule headers_ext(2))
    show "headers (headerMiddleware False req r) =
            (headers r)(''Content-Type'' \<mapsto> ''application/octet-stream'')"
      if "toLowerCase (extname (url req)) = ''.data''"
      using that by (rule headers_ext(3))
    show "headers (headerMiddleware False req r) =
            (headers r)(''Content-Type'' \<mapsto> ''application/octet-stream'')"
      if "toLowerCase (extname (url req)) = ''.unityweb''"
      using that by (rule headers_ext(4))
    show "headers (headerMiddleware False req r) =
            (headers r)(''Content-Encoding'' \<mapsto> ''gzip'',
                        ''Content-Type'' \<mapsto>
                          withDefaultCharset (getContentTypeForCompressedFile (url req)))"
      if "toLowerCase (extname (url req)) = ''.gz''"
      using that by (rule headers_ext(5))
    show "headers (headerMiddleware False req r) =
            (headers r)(''Content-Encoding'' \<mapsto> ''br'',
                        ''Content-Type'' \<mapsto>
                          withDefaultCharset (getContentTypeForCompressedFile (url req)))"
      if "toLowerCase (extname (url req)) = ''.br''"
      using that by (rule headers_ext(6))
  qed (rule g s p x1 x2 x3)+
qed

text \<open>
  C7, amended, at concrete requests: \<open>/Build/game.wasm.br\<close> has the extension \<open>.br\<close>
  and gets Content-Encoding \<open>br\<close> with Content-Type \<open>application/wasm\<close>, and
  \<open>/Build/Game.Loader.JS\<close> has the extension \<open>.js\<close> and gets
  \<open>application/javascript; charset=utf-8\<close>.
\<close>

theorem local_header_classification_witness:
  "toLowerCase (extname ''/Build/game.wasm.br'') = ''.br'' \<and>
   headers (headerMiddleware False (sampleRequest ''/Build/game.wasm.br'' None) freshResponse) =
     [''Content-Encoding'' \<mapsto> ''br'', ''Content-Type'' \<mapsto> ''application/wasm''] \<and>
   toLowerCase (extname ''/Build/Game.Loader.JS'') = ''.js'' \<and>
   headers (headerMiddleware False (sampleRequest ''/Build/Game.Loader.JS'' None) freshResponse) =
     [''Content-Type'' \<mapsto> ''application/javascript; charset=utf-8'']"
proof -
  let ?a = "sampleRequest ''/Build/game.wasm.br'' None"
  let ?b = "sampleRequest ''/Build/Game.Loader.JS'' None"
  have u: "url (sampleRequest v None) = v" for v
    by (simp add: sampleRequest_def)
  have h: "headers freshResponse = Map.empty"
    by (simp add: freshResponse_def)
  have ea: "toLowerCase (extname ''/Build/game.wasm.br'') = ''.br''"
    by code_simp
  have eb: "toLowerCase (extname ''/Build/Game.Loader.JS'') = ''.js''"
    by code_simp
  have c: "includes_str ''/Build/game.wasm.br'' ''.wasm.''"
    by simp
  have ea': "toLowerCase (extname (url ?a)) = ''.br''"
    unfolding u by (rule ea)
  have eb': "toLowerCase (extname (url ?b)) = ''.js''"
    unfolding u by (rule eb)
  from local_header_classification [of ?a freshResponse] ea'
  have "headers (headerMiddleware False ?a freshResponse) =
          (headers freshResponse)(''Content-Encoding'' \<mapsto> ''br'',
             ''Content-Type'' \<mapsto> withDefaultCharset (getContentTypeForCompressedFile (url ?a)))"
    by blast
  then have a: "headers (headerMiddleware False ?a freshResponse) =
             [''Content-Encoding'' \<mapsto> ''br'', ''Content-Type'' \<mapsto> ''application/wasm'']"
    using c by (simp add: u h getContentTypeForCompressedFile_def charset_values)
  from local_header_classification [of ?b freshResponse] eb'
  have "headers (headerMiddleware False ?b freshResponse) =
          (headers freshResponse)(''Content-Type'' \<mapsto> ''application/javascript; charset=utf-8'')"
    by blast
  then have b: "headers (headerMiddleware False ?b freshResponse) =
             [''Content-Type'' \<mapsto> ''application/javascript; charset=utf-8'']"
    by (simp add: h)
  from ea a eb b show ?thesis by simp
qed

end
